theory Spec2Isabelle
  imports Complex_Main
begin

section \<open>Python values, truthiness and exceptions\<close>

text \<open>
  The request and the response of \<^verbatim>\<open>isolate_voice_endpoint\<close> are Python dicts
  whose values come from a JSON body, so a value is any JSON value. A float is
  represented by the real number it denotes; the rounding of IEEE arithmetic is outside
  this model.
\<close>

datatype pyval =
    PNone
  | PBool bool
  | PInt int
  | PFloat real
  | PStr string
  | PList "pyval list"
  | PDict "(string \<times> pyval) list"

text \<open>Python's truth value testing, as \<^verbatim>\<open>not x\<close> and \<^verbatim>\<open>if x:\<close> use it.\<close>

fun truthy :: "pyval \<Rightarrow> bool" where
  "truthy PNone = False"
| "truthy (PBool b) = b"
| "truthy (PInt n) = (n \<noteq> 0)"
| "truthy (PFloat x) = (x \<noteq> 0)"
| "truthy (PStr s) = (s \<noteq> [])"
| "truthy (PList l) = (l \<noteq> [])"
| "truthy (PDict d) = (d \<noteq> [])"

type_synonym pydict = "string \<rightharpoonup> pyval"

text \<open>\<^verbatim>\<open>d.get(k, default)\<close>; \<^verbatim>\<open>d.get(k)\<close> is \<^verbatim>\<open>d.get(k, None)\<close>.\<close>

definition dict_get :: "pydict \<Rightarrow> string \<Rightarrow> pyval \<Rightarrow> pyval" where
  "dict_get d k dflt = (case d k of None \<Rightarrow> dflt | Some v \<Rightarrow> v)"

text \<open>
  The exceptions of the pipeline, all subclasses of \<^verbatim>\<open>Exception\<close>: an index out of
  range (index, size), a division by zero, and an exception raised inside one of the
  external libraries, carried by its message.
\<close>

datatype exn =
    IndexError nat nat
  | ZeroDivisionError
  | LibError string

fun show_nat :: "nat \<Rightarrow> string" where
  "show_nat n =
     (if n < 10 then [''0123456789'' ! n]
      else show_nat (n div 10) @ [''0123456789'' ! (n mod 10)])"

declare show_nat.simps [simp del]

text \<open>\<^verbatim>\<open>str(e)\<close>.\<close>

fun exn_str :: "exn \<Rightarrow> string" where
  "exn_str (IndexError i n) =
     ''index '' @ show_nat i @ '' is out of bounds for dimension 0 with size '' @ show_nat n"
| "exn_str ZeroDivisionError = ''division by zero''"
| "exn_str (LibError m) = m"

text \<open>\<^verbatim>\<open>xs[i]\<close> for a constant index \<^verbatim>\<open>i \<ge> 0\<close>.\<close>

definition py_index :: "'a list \<Rightarrow> nat \<Rightarrow> exn + 'a" where
  "py_index xs i = (if i < length xs then Inr (xs ! i) else Inl (IndexError i (length xs)))"

text \<open>\<^verbatim>\<open>a / b\<close> on two Python ints.\<close>

definition py_truediv :: "int \<Rightarrow> int \<Rightarrow> exn + real" where
  "py_truediv a b = (if b = 0 then Inl ZeroDivisionError else Inr (real_of_int a / real_of_int b))"

section \<open>Audio buffers\<close>

text \<open>
  A waveform is a two-dimensional tensor of shape \<^verbatim>\<open>[channels, samples]\<close>:
  \<open>shape1\<close> is \<^verbatim>\<open>shape[1]\<close>, the rows are the channels and \<^verbatim>\<open>shape[0]\<close> is their
  number. Every row of a tensor has \<open>shape1\<close> entries. The sample type is a parameter
  with an addition (the tensors' \<^verbatim>\<open>+\<close>); nothing else is assumed of it.
\<close>

datatype 's tensor2 = Tensor2 (shape1: nat) (channels: "'s list list")

definition shape0 :: "'s tensor2 \<Rightarrow> nat" where
  "shape0 t = length (channels t)"

definition wf_tensor :: "'s tensor2 \<Rightarrow> bool" where
  "wf_tensor t = list_all (\<lambda>c. length c = shape1 t) (channels t)"

definition same_shape :: "'s tensor2 \<Rightarrow> 's tensor2 \<Rightarrow> bool" where
  "same_shape a b = (shape0 a = shape0 b \<and> shape1 a = shape1 b)"

text \<open>\<^verbatim>\<open>waveform.repeat(2, 1)\<close>: the rows twice, the columns once.\<close>

definition tensor_repeat2 :: "'s tensor2 \<Rightarrow> 's tensor2" where
  "tensor_repeat2 t = Tensor2 (shape1 t) (channels t @ channels t)"

text \<open>\<^verbatim>\<open>waveform[:2]\<close>.\<close>

definition tensor_take2 :: "'s tensor2 \<Rightarrow> 's tensor2" where
  "tensor_take2 t = Tensor2 (shape1 t) (take 2 (channels t))"

text \<open>
  \<^verbatim>\<open>a + b\<close> on two stems. The stems are slices of one tensor, so they have the same
  shape and no broadcasting takes place.
\<close>

definition tensor_add :: "('s::plus) tensor2 \<Rightarrow> 's tensor2 \<Rightarrow> 's tensor2" where
  "tensor_add a b = Tensor2 (shape1 a) (map2 (map2 (+)) (channels a) (channels b))"

text \<open>\<^verbatim>\<open>audio_np.T\<close>: shape \<^verbatim>\<open>[samples, channels]\<close>.\<close>

definition tensor_T :: "'s tensor2 \<Rightarrow> 's tensor2" where
  "tensor_T t = Tensor2 (shape0 t) (map (\<lambda>i. map (\<lambda>c. c ! i) (channels t)) [0..<shape1 t])"

section \<open>The external libraries\<close>

text \<open>
  The pipeline calls \<^verbatim>\<open>base64\<close>, \<^verbatim>\<open>torchaudio\<close>, \<^verbatim>\<open>demucs\<close> and \<^verbatim>\<open>soundfile\<close>.
  They are parameters of the model; each call that can raise returns a sum.
  \<^item> \<open>b64decode\<close>: \<^verbatim>\<open>base64.b64decode\<close>, on the value the request carried;
  \<^item> \<open>torchaudio_load\<close>: \<^verbatim>\<open>torchaudio.load\<close> on the decoded bytes, giving the waveform
    and its sample rate;
  \<^item> \<open>resample\<close>: \<^verbatim>\<open>torchaudio.transforms.Resample(orig, new)(waveform)\<close>;
  \<^item> \<open>apply_model\<close>: the move to the device and \<^verbatim>\<open>demucs.apply.apply_model\<close> with the
    loaded model, from a batch of waveforms to a tensor of shape
    \<^verbatim>\<open>[batch, num_sources, channels, samples]\<close>;
  \<^item> \<open>sf_write\<close>: \<^verbatim>\<open>soundfile.write\<close> of a \<^verbatim>\<open>[samples, channels]\<close> array at a sample
    rate in WAV format, giving the bytes written;
  \<^item> \<open>b64encode\<close>: \<^verbatim>\<open>base64.b64encode(...).decode("utf-8")\<close>.
\<close>

type_synonym bytes = string

record 's audio_lib =
  b64decode :: "pyval \<Rightarrow> exn + bytes"
  torchaudio_load :: "bytes \<Rightarrow> exn + ('s tensor2 \<times> int)"
  resample :: "int \<Rightarrow> int \<Rightarrow> 's tensor2 \<Rightarrow> exn + 's tensor2"
  apply_model :: "'s tensor2 list \<Rightarrow> exn + 's tensor2 list list"
  sf_write :: "'s tensor2 \<Rightarrow> int \<Rightarrow> exn + bytes"
  b64encode :: "bytes \<Rightarrow> string"

text \<open>
  \<^verbatim>\<open>Resample\<close> works along the last dimension: it returns as many channels as it is
  given. This is a property of the library, stated where a result depends on it.
\<close>

definition resample_keeps_channels :: "'s audio_lib \<Rightarrow> bool" where
  "resample_keeps_channels lib =
     (\<forall>orig new w r. resample lib orig new w = Inr r \<longrightarrow> shape0 r = shape0 w)"

section \<open>\<^verbatim>\<open>VoiceIsolator.isolate_voice\<close>\<close>

text \<open>Lines 82 to 85: resample to the model's sample rate.\<close>

definition resample_step :: "'s audio_lib \<Rightarrow> 's tensor2 \<Rightarrow> int \<Rightarrow> exn + ('s tensor2 \<times> int)" where
  "resample_step lib waveform sample_rate =
     (if sample_rate \<noteq> 44100 then
        (case resample lib sample_rate 44100 waveform of
           Inl e \<Rightarrow> Inl e
         | Inr resampled \<Rightarrow> Inr (resampled, 44100))
      else Inr (waveform, sample_rate))"

text \<open>Lines 88 to 91: ensure stereo.\<close>

definition ensure_stereo :: "'s tensor2 \<Rightarrow> 's tensor2" where
  "ensure_stereo waveform =
     (if shape0 waveform = 1 then tensor_repeat2 waveform
      else if shape0 waveform > 2 then tensor_take2 waveform
      else waveform)"

text \<open>Lines 82 to 91, the normalization.\<close>

definition normalize_audio :: "'s audio_lib \<Rightarrow> 's tensor2 \<Rightarrow> int \<Rightarrow> exn + ('s tensor2 \<times> int)" where
  "normalize_audio lib waveform sample_rate =
     (case resample_step lib waveform sample_rate of
        Inl e \<Rightarrow> Inl e
      | Inr (resampled, rate) \<Rightarrow> Inr (ensure_stereo resampled, rate))"

text \<open>Lines 75 to 79: decode the input and load the audio.\<close>

definition load_audio :: "'s audio_lib \<Rightarrow> pyval \<Rightarrow> exn + ('s tensor2 \<times> int)" where
  "load_audio lib audio_base64 =
     (case b64decode lib audio_base64 of
        Inl e \<Rightarrow> Inl e
      | Inr audio_bytes \<Rightarrow> torchaudio_load lib audio_bytes)"

text \<open>
  Lines 94 to 108: \<^verbatim>\<open>unsqueeze(0)\<close> makes a batch of one waveform, the model is
  applied, and \<^verbatim>\<open>sources[0]\<close> removes the batch dimension.
\<close>

definition separate :: "'s audio_lib \<Rightarrow> 's tensor2 \<Rightarrow> exn + 's tensor2 list" where
  "separate lib waveform =
     (case apply_model lib [waveform] of
        Inl e \<Rightarrow> Inl e
      | Inr sources \<Rightarrow> py_index sources 0)"

text \<open>
  Lines 75 to 108: the stems the model returns for a request's audio (in the order
  drums, bass, other, vocals), with the sample rate after normalization.
\<close>

definition run_inference :: "'s audio_lib \<Rightarrow> pyval \<Rightarrow> exn + ('s tensor2 list \<times> int)" where
  "run_inference lib audio_base64 =
     (case load_audio lib audio_base64 of
        Inl e \<Rightarrow> Inl e
      | Inr (waveform, sample_rate) \<Rightarrow>
          (case normalize_audio lib waveform sample_rate of
             Inl e \<Rightarrow> Inl e
           | Inr (stereo, rate) \<Rightarrow>
               (case separate lib stereo of
                  Inl e \<Rightarrow> Inl e
                | Inr sources \<Rightarrow> Inr (sources, rate))))"

text \<open>
  Lines 111 and 112: the vocals and the accompaniment. \<^verbatim>\<open>.cpu().numpy()\<close> keeps the
  values. The indices are read in the order of the source: 3, then 0, 1 and 2.
\<close>

definition mix_down :: "('s::plus) tensor2 list \<Rightarrow> exn + ('s tensor2 \<times> 's tensor2)" where
  "mix_down sources =
     (case py_index sources 3 of
        Inl e \<Rightarrow> Inl e
      | Inr vocals \<Rightarrow>
          (case py_index sources 0 of
             Inl e \<Rightarrow> Inl e
           | Inr drums \<Rightarrow>
               (case py_index sources 1 of
                  Inl e \<Rightarrow> Inl e
                | Inr bass \<Rightarrow>
                    (case py_index sources 2 of
                       Inl e \<Rightarrow> Inl e
                     | Inr other \<Rightarrow> Inr (vocals, tensor_add (tensor_add drums bass) other)))))"

text \<open>Lines 115 to 119: \<^verbatim>\<open>encode_audio\<close>, a closure over \<^verbatim>\<open>sample_rate\<close>.\<close>

definition encode_audio :: "'s audio_lib \<Rightarrow> int \<Rightarrow> 's tensor2 \<Rightarrow> exn + string" where
  "encode_audio lib sample_rate audio_np =
     (case sf_write lib (tensor_T audio_np) sample_rate of
        Inl e \<Rightarrow> Inl e
      | Inr wav \<Rightarrow> Inr (b64encode lib wav))"

text \<open>The dict \<^verbatim>\<open>isolate_voice\<close> returns: its four keys are always present.\<close>

record isolation_result =
  vocals_base64 :: string
  accompaniment_base64 :: string
  sample_rate :: int
  duration_seconds :: real

text \<open>Lines 111 to 129: mix-down, encoding, and the returned dict.\<close>

definition build_result :: "('s::plus) audio_lib \<Rightarrow> 's tensor2 list \<Rightarrow> int \<Rightarrow> exn + isolation_result" where
  "build_result lib sources rate =
     (case mix_down sources of
        Inl e \<Rightarrow> Inl e
      | Inr (vocals, accompaniment) \<Rightarrow>
          (case encode_audio lib rate vocals of
             Inl e \<Rightarrow> Inl e
           | Inr vocals_b64 \<Rightarrow>
               (case encode_audio lib rate accompaniment of
                  Inl e \<Rightarrow> Inl e
                | Inr accompaniment_b64 \<Rightarrow>
                    (case py_truediv (int (shape1 vocals)) rate of
                       Inl e \<Rightarrow> Inl e
                     | Inr duration \<Rightarrow>
                         Inr \<lparr>vocals_base64 = vocals_b64,
                              accompaniment_base64 = accompaniment_b64,
                              sample_rate = rate,
                              duration_seconds = duration\<rparr>))))"

definition isolate_voice :: "('s::plus) audio_lib \<Rightarrow> pyval \<Rightarrow> exn + isolation_result" where
  "isolate_voice lib audio_base64 =
     (case run_inference lib audio_base64 of
        Inl e \<Rightarrow> Inl e
      | Inr (sources, rate) \<Rightarrow> build_result lib sources rate)"

section \<open>\<^verbatim>\<open>isolate_voice_endpoint\<close>\<close>

definition missing_audio_response :: pydict where
  "missing_audio_response =
     [''success'' \<mapsto> PBool False, ''error'' \<mapsto> PStr ''audio_base64 is required'']"

definition error_response :: "exn \<Rightarrow> pydict" where
  "error_response e = [''success'' \<mapsto> PBool False, ''error'' \<mapsto> PStr (exn_str e)]"

definition success_response :: "isolation_result \<Rightarrow> pydict" where
  "success_response result =
     [''success'' \<mapsto> PBool True,
      ''vocals_base64'' \<mapsto> PStr (vocals_base64 result),
      ''duration_seconds'' \<mapsto> PFloat (duration_seconds result)]"

text \<open>
  Lines 153 to 172, the body of the \<^verbatim>\<open>try\<close>. The remote call runs
  \<^verbatim>\<open>isolate_voice\<close> and raises here what it raised there.
\<close>

definition endpoint_body :: "('s::plus) audio_lib \<Rightarrow> pydict \<Rightarrow> exn + pydict" where
  "endpoint_body lib request =
     (let audio_base64 = dict_get request ''audio_base64'' PNone;
          return_accompaniment = dict_get request ''return_accompaniment'' (PBool False)
      in if \<not> truthy audio_base64 then Inr missing_audio_response
         else
           (case isolate_voice lib audio_base64 of
              Inl e \<Rightarrow> Inl e
            | Inr result \<Rightarrow>
                (let response = success_response result
                 in if truthy return_accompaniment
                    then Inr (response(''accompaniment_base64'' \<mapsto> PStr (accompaniment_base64 result)))
                    else Inr response)))"

text \<open>
  Lines 152 to 175: \<^verbatim>\<open>except Exception as e\<close> turns what the body raised into a
  response. \<open>Inl\<close> would be an exception that reaches the caller.
\<close>

definition isolate_voice_endpoint :: "('s::plus) audio_lib \<Rightarrow> pydict \<Rightarrow> exn + pydict" where
  "isolate_voice_endpoint lib request =
     (case endpoint_body lib request of
        Inl e \<Rightarrow> Inr (error_response e)
      | Inr response \<Rightarrow> Inr response)"

text \<open>Whether the endpoint returned a response that has the key \<open>k\<close>.\<close>

definition returns_field :: "exn + pydict \<Rightarrow> string \<Rightarrow> bool" where
  "returns_field r k = (case r of Inl e \<Rightarrow> False | Inr response \<Rightarrow> response k \<noteq> None)"

section \<open>A stand-in for the libraries\<close>

text \<open>
  Every result below holds for all libraries. To run the pipeline on concrete inputs,
  a small stand-in with integer samples is used: decoding accepts only a string and
  keeps it; loading gives one channel at 22050 Hz with one sample per byte; the
  resampler doubles every sample and keeps the channels; the model returns the four
  stems \<open>1 * w\<close>, \<open>2 * w\<close>, \<open>3 * w\<close> and \<open>4 * w\<close> for a waveform \<open>w\<close>; writing
  prints the frames in decimal.
\<close>

definition tensor_scale :: "int \<Rightarrow> int tensor2 \<Rightarrow> int tensor2" where
  "tensor_scale k t = Tensor2 (shape1 t) (map (map (\<lambda>x. k * x)) (channels t))"

definition print_frames :: "int tensor2 \<Rightarrow> string" where
  "print_frames t =
     concat (map (\<lambda>frame. concat (map (\<lambda>x. show_nat (nat x) @ '' '') frame) @ ''/'') (channels t))"

definition stub_lib :: "int audio_lib" where
  "stub_lib =
     \<lparr>b64decode = (\<lambda>v. case v of
          PStr s \<Rightarrow> Inr s
        | _ \<Rightarrow> Inl (LibError ''argument should be a bytes-like object or ASCII string'')),
      torchaudio_load = (\<lambda>bs.
        if bs = [] then Inl (LibError ''Failed to open the input'')
        else Inr (Tensor2 (length bs) [map (\<lambda>c. 1) bs], 22050)),
      resample = (\<lambda>orig new w.
        if orig \<le> 0 then Inl (LibError ''Original frequency must be positive'')
        else Inr (Tensor2 (2 * shape1 w) (map (\<lambda>c. concat (map (\<lambda>x. [x, x]) c)) (channels w)))),
      apply_model = (\<lambda>batch.
        Inr (map (\<lambda>w. [tensor_scale 1 w, tensor_scale 2 w, tensor_scale 3 w, tensor_scale 4 w]) batch)),
      sf_write = (\<lambda>frames rate. Inr (print_frames frames)),
      b64encode = (\<lambda>wav. wav)\<rparr>"

text \<open>A request whose \<^verbatim>\<open>return_accompaniment\<close> is a string, not a boolean.\<close>

definition string_flag_request :: pydict where
  "string_flag_request =
     [''audio_base64'' \<mapsto> PStr ''ab'', ''return_accompaniment'' \<mapsto> PStr ''no'']"

section \<open>Normalization\<close>

lemma normalize_audio_rate:
  "normalize_audio lib w sr = Inr (s, r) \<Longrightarrow> r = 44100"
  by (auto simp: normalize_audio_def resample_step_def split: if_splits sum.splits)

lemma ensure_stereo_shape0: "1 \<le> shape0 w \<Longrightarrow> shape0 (ensure_stereo w) = 2"
  by (auto simp: ensure_stereo_def shape0_def tensor_repeat2_def tensor_take2_def)

lemma resample_step_shape0:
  "resample_keeps_channels lib \<Longrightarrow> resample_step lib w sr = Inr (r, rate) \<Longrightarrow>
   shape0 r = shape0 w \<and> rate = 44100"
  by (auto simp: resample_step_def resample_keeps_channels_def split: if_splits sum.splits)

lemma normalize_audio_Inr:
  "normalize_audio lib w sr = Inr (s, rate) \<Longrightarrow>
   \<exists>r. resample_step lib w sr = Inr (r, rate) \<and> s = ensure_stereo r"
  by (auto simp: normalize_audio_def split: sum.splits)

lemma resample_step_same_rate:
  "resample_step lib w 44100 = Inr (r, rate) \<Longrightarrow> r = w"
  by (simp add: resample_step_def)

lemma run_inference_Inr:
  assumes "load_audio lib a = Inr (w, sr)" and "run_inference lib a = Inr (sources, rate)"
  shows "\<exists>stereo batch. normalize_audio lib w sr = Inr (stereo, rate)
           \<and> apply_model lib [stereo] = Inr batch \<and> py_index batch 0 = Inr sources"
  using assms
  by (auto simp: run_inference_def separate_def split: sum.splits prod.splits)

lemma take2_nth: "2 < length xs \<Longrightarrow> take 2 xs = [xs ! 0, xs ! 1]"
  by (cases xs; cases "tl xs") auto

lemma single_nth: "length xs = 1 \<Longrightarrow> xs = [xs ! 0]"
  by (cases xs) auto

text \<open>The stand-in, evaluated.\<close>

lemmas stub_simps =
  stub_lib_def load_audio_def normalize_audio_def resample_step_def ensure_stereo_def shape0_def
  tensor_repeat2_def tensor_take2_def separate_def py_index_def run_inference_def tensor_scale_def

lemma stub_keeps: "resample_keeps_channels stub_lib"
  by (auto simp: resample_keeps_channels_def stub_lib_def shape0_def split: if_splits)

text \<open>
  C1. For an input with at least one channel and any sample rate, and a resampler that
  keeps the number of channels: the normalization fails only where the resampler itself
  raises; otherwise it gives a buffer of exactly 2 channels at 44100 Hz, and that
  buffer, as a batch of one, is what the model is applied to.
\<close>

theorem normalize_audio_stereo_44100:
  assumes "resample_keeps_channels lib" and "1 \<le> shape0 waveform"
  shows "(\<forall>e. normalize_audio lib waveform sr = Inl e \<longrightarrow>
            sr \<noteq> 44100 \<and> resample lib sr 44100 waveform = Inl e)
       \<and> (\<forall>stereo rate. normalize_audio lib waveform sr = Inr (stereo, rate) \<longrightarrow>
            shape0 stereo = 2 \<and> rate = 44100)
       \<and> (\<forall>a sources rate.
            load_audio lib a = Inr (waveform, sr) \<and> run_inference lib a = Inr (sources, rate) \<longrightarrow>
            (\<exists>stereo batch. normalize_audio lib waveform sr = Inr (stereo, 44100)
               \<and> shape0 stereo = 2 \<and> apply_model lib [stereo] = Inr batch
               \<and> py_index batch 0 = Inr sources))"
proof -
  have fails: "sr \<noteq> 44100 \<and> resample lib sr 44100 waveform = Inl e"
    if "normalize_audio lib waveform sr = Inl e" for e
    using that
    by (auto simp: normalize_audio_def resample_step_def split: if_splits sum.splits)
  have gives: "shape0 stereo = 2 \<and> rate = 44100"
    if n: "normalize_audio lib waveform sr = Inr (stereo, rate)" for stereo rate
  proof -
    from n obtain r where r: "resample_step lib waveform sr = Inr (r, rate)"
      and s: "stereo = ensure_stereo r"
      using normalize_audio_Inr by blast
    from resample_step_shape0 [OF assms(1) r] assms(2) have "1 \<le> shape0 r" and "rate = 44100"
      by simp_all
    with s show ?thesis by (simp add: ensure_stereo_shape0)
  qed
  have runs: "\<exists>stereo batch. normalize_audio lib waveform sr = Inr (stereo, 44100)
               \<and> shape0 stereo = 2 \<and> apply_model lib [stereo] = Inr batch
               \<and> py_index batch 0 = Inr sources"
    if "load_audio lib a = Inr (waveform, sr)" "run_inference lib a = Inr (sources, rate)"
    for a sources rate
    using run_inference_Inr [OF that] gives by blast
  from fails gives runs show ?thesis by blast
qed

theorem normalize_audio_stereo_44100_witness:
  "resample_keeps_channels stub_lib \<and> 1 \<le> shape0 (Tensor2 2 [[1, 2 :: int]])
   \<and> normalize_audio stub_lib (Tensor2 2 [[1, 2]]) 22050
       = Inr (Tensor2 4 [[1, 1, 2, 2], [1, 1, 2, 2]], 44100)
   \<and> shape0 (Tensor2 4 [[1, 1, 2, 2], [1, 1, 2, 2 :: int]]) = 2"
proof -
  have k: "resample_keeps_channels stub_lib" by (rule stub_keeps)
  have h: "1 \<le> shape0 (Tensor2 2 [[1, 2 :: int]])" by (simp add: shape0_def)
  have n: "normalize_audio stub_lib (Tensor2 2 [[1, 2]]) 22050
           = Inr (Tensor2 4 [[1, 1, 2, 2], [1, 1, 2, 2]], 44100)"
    by (simp add: stub_simps)
  from normalize_audio_stereo_44100 [OF k h, of 22050] n
  have "shape0 (Tensor2 4 [[1, 1, 2, 2], [1, 1, 2, 2 :: int]]) = 2" by blast
  with k h n show ?thesis by blast
qed

text \<open>
  C7. For an input with more than 2 channels, and a resampler that keeps the number of
  channels: once the resampling step has returned (at 44100 Hz it returns the input
  itself), the normalization returns the buffer whose channels are exactly channels 0
  and 1 of the resampled input, in this order and unchanged; the other channels are
  dropped and nothing is mixed.
\<close>

theorem normalize_audio_truncates:
  assumes "resample_keeps_channels lib" and "2 < shape0 waveform"
    and "resample_step lib waveform sr = Inr (resampled, rate)"
  shows "normalize_audio lib waveform sr
         = Inr (Tensor2 (shape1 resampled) [channels resampled ! 0, channels resampled ! 1], 44100)
       \<and> (sr = 44100 \<longrightarrow> resampled = waveform)"
proof -
  from resample_step_shape0 [OF assms(1,3)] assms(2)
  have len: "2 < shape0 resampled" and rate: "rate = 44100"
    by simp_all
  from len have "ensure_stereo resampled
                 = Tensor2 (shape1 resampled) [channels resampled ! 0, channels resampled ! 1]"
    by (simp add: ensure_stereo_def tensor_take2_def shape0_def take2_nth)
  with assms(3) rate have "normalize_audio lib waveform sr
         = Inr (Tensor2 (shape1 resampled) [channels resampled ! 0, channels resampled ! 1], 44100)"
    by (simp add: normalize_audio_def)
  moreover have "sr = 44100 \<longrightarrow> resampled = waveform"
    using assms(3) resample_step_same_rate by blast
  ultimately show ?thesis by blast
qed

theorem normalize_audio_truncates_witness:
  "resample_keeps_channels stub_lib
   \<and> 2 < shape0 (Tensor2 2 [[1, 2], [3, 4], [5, 6 :: int]])
   \<and> resample_step stub_lib (Tensor2 2 [[1, 2], [3, 4], [5, 6]]) 22050
       = Inr (Tensor2 4 [[1, 1, 2, 2], [3, 3, 4, 4], [5, 5, 6, 6]], 44100)
   \<and> normalize_audio stub_lib (Tensor2 2 [[1, 2], [3, 4], [5, 6]]) 22050
       = Inr (Tensor2 4 [[1, 1, 2, 2], [3, 3, 4, 4]], 44100)"
proof -
  let ?w = "Tensor2 2 [[1, 2], [3, 4], [5, 6 :: int]]"
  have k: "resample_keeps_channels stub_lib" by (rule stub_keeps)
  have h: "2 < shape0 ?w" by (simp add: shape0_def)
  have r: "resample_step stub_lib ?w 22050
           = Inr (Tensor2 4 [[1, 1, 2, 2], [3, 3, 4, 4], [5, 5, 6, 6]], 44100)"
    by (simp add: resample_step_def stub_lib_def)
  from normalize_audio_truncates [OF k h r]
  have "normalize_audio stub_lib ?w 22050 = Inr (Tensor2 4 [[1, 1, 2, 2], [3, 3, 4, 4]], 44100)"
    by simp
  with k h r show ?thesis by blast
qed

text \<open>
  C8. For a mono input, and a resampler that keeps the number of channels: once the
  resampling step has returned (at 44100 Hz it returns the input itself), the resampled
  input has one channel and the normalization returns the buffer whose two channels
  are both equal to it.
\<close>

theorem normalize_audio_duplicates_mono:
  assumes "resample_keeps_channels lib" and "shape0 waveform = 1"
    and "resample_step lib waveform sr = Inr (resampled, rate)"
  shows "channels resampled = [channels resampled ! 0]
       \<and> normalize_audio lib waveform sr
         = Inr (Tensor2 (shape1 resampled) [channels resampled ! 0, channels resampled ! 0], 44100)
       \<and> (sr = 44100 \<longrightarrow> resampled = waveform)"
proof -
  from resample_step_shape0 [OF assms(1,3)] assms(2)
  have len: "shape0 resampled = 1" and rate: "rate = 44100"
    by simp_all
  from len have one: "channels resampled = [channels resampled ! 0]"
    by (simp add: shape0_def single_nth)
  then have "channels resampled @ channels resampled = [channels resampled ! 0, channels resampled ! 0]"
    by (metis append_Cons append_Nil)
  with len have "ensure_stereo resampled
                 = Tensor2 (shape1 resampled) [channels resampled ! 0, channels resampled ! 0]"
    by (simp add: ensure_stereo_def tensor_repeat2_def)
  with assms(3) rate have "normalize_audio lib waveform sr
         = Inr (Tensor2 (shape1 resampled) [channels resampled ! 0, channels resampled ! 0], 44100)"
    by (simp add: normalize_audio_def)
  moreover have "sr = 44100 \<longrightarrow> resampled = waveform"
    using assms(3) resample_step_same_rate by blast
  ultimately show ?thesis using one by blast
qed

theorem normalize_audio_duplicates_mono_witness:
  "resample_keeps_channels stub_lib
   \<and> shape0 (Tensor2 3 [[7, 8, 9 :: int]]) = 1
   \<and> resample_step stub_lib (Tensor2 3 [[7, 8, 9]]) 48000 = Inr (Tensor2 6 [[7, 7, 8, 8, 9, 9]], 44100)
   \<and> normalize_audio stub_lib (Tensor2 3 [[7, 8, 9]]) 48000
       = Inr (Tensor2 6 [[7, 7, 8, 8, 9, 9], [7, 7, 8, 8, 9, 9]], 44100)"
proof -
  let ?w = "Tensor2 3 [[7, 8, 9 :: int]]"
  have k: "resample_keeps_channels stub_lib" by (rule stub_keeps)
  have h: "shape0 ?w = 1" by (simp add: shape0_def)
  have r: "resample_step stub_lib ?w 48000 = Inr (Tensor2 6 [[7, 7, 8, 8, 9, 9]], 44100)"
    by (simp add: resample_step_def stub_lib_def)
  from normalize_audio_duplicates_mono [OF k h r]
  have "normalize_audio stub_lib ?w 48000
        = Inr (Tensor2 6 [[7, 7, 8, 8, 9, 9], [7, 7, 8, 8, 9, 9]], 44100)"
    by simp
  with k h r show ?thesis by blast
qed

text \<open>
  C9. Resampling is applied only when the sample rate differs from 44100 Hz: at
  44100 Hz the resampling step returns the waveform as it is, whatever the resampler
  would do, and the normalization changes the buffer by the channel coercion only.
\<close>

theorem resample_step_at_target_rate:
  "resample_step lib waveform 44100 = Inr (waveform, 44100)
   \<and> normalize_audio lib waveform 44100 = Inr (ensure_stereo waveform, 44100)"
  by (simp add: resample_step_def normalize_audio_def)

section \<open>Mix-down and duration\<close>

lemma py_index_Inr: "py_index xs i = Inr x \<Longrightarrow> i < length xs \<and> x = xs ! i"
  by (auto simp: py_index_def split: if_splits)

lemma mix_down_Inr:
  "mix_down sources = Inr (vocals, acc) \<Longrightarrow>
   4 \<le> length sources \<and> vocals = sources ! 3
   \<and> acc = tensor_add (tensor_add (sources ! 0) (sources ! 1)) (sources ! 2)"
  by (auto simp: mix_down_def split: sum.splits dest!: py_index_Inr)

lemma mix_down_four:
  "4 \<le> length sources \<Longrightarrow>
   mix_down sources
   = Inr (sources ! 3, tensor_add (tensor_add (sources ! 0) (sources ! 1)) (sources ! 2))"
  by (auto simp: mix_down_def py_index_def)

lemma build_result_Inr:
  "build_result lib sources rate = Inr result \<Longrightarrow>
   \<exists>vocals acc. mix_down sources = Inr (vocals, acc)
     \<and> encode_audio lib rate vocals = Inr (vocals_base64 result)
     \<and> encode_audio lib rate acc = Inr (accompaniment_base64 result)
     \<and> py_truediv (int (shape1 vocals)) rate = Inr (duration_seconds result)
     \<and> sample_rate result = rate"
  by (auto simp: build_result_def split: sum.splits prod.splits)

lemma run_inference_rate: "run_inference lib a = Inr (sources, rate) \<Longrightarrow> rate = 44100"
  by (auto simp: run_inference_def split: sum.splits prod.splits dest: normalize_audio_rate)

lemma isolate_voice_Inr:
  "isolate_voice lib a = Inr result \<Longrightarrow>
   \<exists>sources. run_inference lib a = Inr (sources, 44100) \<and> build_result lib sources 44100 = Inr result"
  by (auto simp: isolate_voice_def split: sum.splits prod.splits dest: run_inference_rate)

text \<open>The sum of tensors of one shape is elementwise.\<close>

lemma tensor_add_shape:
  "same_shape a b \<Longrightarrow> same_shape (tensor_add a b) a"
  by (simp add: same_shape_def tensor_add_def shape0_def)

lemma tensor_add_shape_other:
  "same_shape a b \<Longrightarrow> same_shape a c \<Longrightarrow> same_shape (tensor_add a b) c"
  by (simp add: same_shape_def tensor_add_def shape0_def)

lemma tensor_add_wf:
  "wf_tensor a \<Longrightarrow> wf_tensor b \<Longrightarrow> same_shape a b \<Longrightarrow> wf_tensor (tensor_add a b)"
  by (auto simp: wf_tensor_def tensor_add_def same_shape_def list_all_iff elim!: in_set_zipE)

lemma tensor_add_nth:
  assumes "wf_tensor a" and "wf_tensor b" and "same_shape a b"
    and "ch < shape0 a" and "i < shape1 a"
  shows "channels (tensor_add a b) ! ch ! i = channels a ! ch ! i + channels b ! ch ! i"
proof -
  from assms have la: "length (channels a ! ch) = shape1 a" and lb: "length (channels b ! ch) = shape1 a"
    and cb: "ch < length (channels b)" and ca: "ch < length (channels a)"
    by (simp_all add: wf_tensor_def same_shape_def shape0_def list_all_length)
  from ca cb have "channels (tensor_add a b) ! ch = map2 (+) (channels a ! ch) (channels b ! ch)"
    by (simp add: tensor_add_def)
  with la lb assms(5) show ?thesis by simp
qed

lemma tensor_add3_nth:
  assumes "wf_tensor a" and "wf_tensor b" and "wf_tensor c" and "same_shape a b" and "same_shape a c"
  shows "same_shape (tensor_add (tensor_add a b) c) a
       \<and> wf_tensor (tensor_add (tensor_add a b) c)
       \<and> (\<forall>ch<shape0 a. \<forall>i<shape1 a.
             channels (tensor_add (tensor_add a b) c) ! ch ! i
             = channels a ! ch ! i + channels b ! ch ! i + channels c ! ch ! i)"
proof -
  let ?ab = "tensor_add a b"
  have wab: "wf_tensor ?ab" using assms by (simp add: tensor_add_wf)
  have sab: "same_shape ?ab a" using assms by (simp add: tensor_add_shape)
  have sabc: "same_shape ?ab c" using assms by (simp add: tensor_add_shape_other)
  have 1: "same_shape (tensor_add ?ab c) a"
    using tensor_add_shape [OF sabc] sab by (simp add: same_shape_def)
  have 2: "wf_tensor (tensor_add ?ab c)" using wab assms(3) sabc by (rule tensor_add_wf)
  have 3: "channels (tensor_add ?ab c) ! ch ! i = channels a ! ch ! i + channels b ! ch ! i + channels c ! ch ! i"
    if "ch < shape0 a" "i < shape1 a" for ch i
  proof -
    from that sab have "ch < shape0 ?ab" "i < shape1 ?ab" by (simp_all add: same_shape_def)
    then have "channels (tensor_add ?ab c) ! ch ! i = channels ?ab ! ch ! i + channels c ! ch ! i"
      using wab assms(3) sabc by (simp add: tensor_add_nth)
    also have "channels ?ab ! ch ! i = channels a ! ch ! i + channels b ! ch ! i"
      using assms that by (simp add: tensor_add_nth)
    finally show ?thesis .
  qed
  from 1 2 3 show ?thesis by blast
qed

text \<open>The stand-in, evaluated on the request audio \<open>''ab''\<close>.\<close>

lemma show_nat_small: "n < 10 \<Longrightarrow> show_nat n = [''0123456789'' ! n]"
  by (simp add: show_nat.simps)

lemma upt4: "[0..<4] = [0, 1, 2, 3]"
  by (simp add: upt_rec)

lemma stub_run:
  "run_inference stub_lib (PStr ''ab'')
   = Inr ([Tensor2 4 [[1, 1, 1, 1], [1, 1, 1, 1]], Tensor2 4 [[2, 2, 2, 2], [2, 2, 2, 2]],
           Tensor2 4 [[3, 3, 3, 3], [3, 3, 3, 3]], Tensor2 4 [[4, 4, 4, 4], [4, 4, 4, 4]]], 44100)"
  by (simp add: stub_simps)

lemma stub_encode_vocals:
  "encode_audio stub_lib 44100 (Tensor2 4 [[4, 4, 4, 4], [4, 4, 4, 4]]) = Inr ''4 4 /4 4 /4 4 /4 4 /''"
  by (simp add: encode_audio_def stub_lib_def tensor_T_def shape0_def print_frames_def upt4 show_nat_small)

lemma stub_encode_accompaniment:
  "encode_audio stub_lib 44100 (Tensor2 4 [[6, 6, 6, 6], [6, 6, 6, 6]]) = Inr ''6 6 /6 6 /6 6 /6 6 /''"
  by (simp add: encode_audio_def stub_lib_def tensor_T_def shape0_def print_frames_def upt4 show_nat_small)

lemma stub_mix_down:
  "mix_down [Tensor2 4 [[1, 1, 1, 1], [1, 1, 1, 1]], Tensor2 4 [[2, 2, 2, 2], [2, 2, 2, 2]],
             Tensor2 4 [[3, 3, 3, 3], [3, 3, 3, 3]], Tensor2 4 [[4, 4, 4, 4], [4, 4, 4, 4 :: int]]]
   = Inr (Tensor2 4 [[4, 4, 4, 4], [4, 4, 4, 4]], Tensor2 4 [[6, 6, 6, 6], [6, 6, 6, 6]])"
  by (simp add: mix_down_def py_index_def tensor_add_def)

lemma stub_isolate_voice:
  "isolate_voice stub_lib (PStr ''ab'')
   = Inr \<lparr>vocals_base64 = ''4 4 /4 4 /4 4 /4 4 /'', accompaniment_base64 = ''6 6 /6 6 /6 6 /6 6 /'',
          sample_rate = 44100, duration_seconds = 4 / 44100\<rparr>"
  by (simp add: isolate_voice_def stub_run build_result_def stub_mix_down stub_encode_vocals
      stub_encode_accompaniment py_truediv_def)

text \<open>
  C2. For every inference result of (at least) four stems: \<^verbatim>\<open>isolate_voice\<close> returns
  exactly when both encodings succeed, and then the returned vocals are the encoding of
  the stem at index 3 and the returned accompaniment is the encoding of
  \<open>(stem 0 + stem 1) + stem 2\<close>. The stems have one shape, and then this sum has that
  shape and its entry at every channel and sample is the sum of the three stems' entries
  there.
\<close>

theorem isolate_voice_mix_down:
  assumes "run_inference lib a = Inr (sources, rate)" and "4 \<le> length sources"
  shows "\<exists>acc. acc = tensor_add (tensor_add (sources ! 0) (sources ! 1)) (sources ! 2)
         \<and> (\<forall>result. isolate_voice lib a = Inr result \<longrightarrow>
               encode_audio lib 44100 (sources ! 3) = Inr (vocals_base64 result)
             \<and> encode_audio lib 44100 acc = Inr (accompaniment_base64 result))
         \<and> (\<forall>v ab. encode_audio lib 44100 (sources ! 3) = Inr v
                   \<and> encode_audio lib 44100 acc = Inr ab \<longrightarrow>
               (\<exists>result. isolate_voice lib a = Inr result
                  \<and> vocals_base64 result = v \<and> accompaniment_base64 result = ab))
         \<and> (wf_tensor (sources ! 0) \<and> wf_tensor (sources ! 1) \<and> wf_tensor (sources ! 2)
              \<and> same_shape (sources ! 0) (sources ! 1) \<and> same_shape (sources ! 0) (sources ! 2)
            \<longrightarrow> same_shape acc (sources ! 0) \<and> wf_tensor acc
              \<and> (\<forall>ch<shape0 (sources ! 0). \<forall>i<shape1 (sources ! 0).
                    channels acc ! ch ! i
                    = channels (sources ! 0) ! ch ! i + channels (sources ! 1) ! ch ! i
                      + channels (sources ! 2) ! ch ! i))"
proof -
  let ?acc = "tensor_add (tensor_add (sources ! 0) (sources ! 1)) (sources ! 2)"
  from assms(1) have rate: "rate = 44100" by (rule run_inference_rate)
  from assms(2) have mix: "mix_down sources = Inr (sources ! 3, ?acc)" by (rule mix_down_four)
  from assms(1) rate have iv: "isolate_voice lib a = build_result lib sources 44100"
    by (simp add: isolate_voice_def)
  have returned: "encode_audio lib 44100 (sources ! 3) = Inr (vocals_base64 result)
             \<and> encode_audio lib 44100 ?acc = Inr (accompaniment_base64 result)"
    if "isolate_voice lib a = Inr result" for result
    using that iv mix build_result_Inr [of lib sources 44100 result] by auto
  have returns: "\<exists>result. isolate_voice lib a = Inr result
                  \<and> vocals_base64 result = v \<and> accompaniment_base64 result = ab"
    if "encode_audio lib 44100 (sources ! 3) = Inr v" "encode_audio lib 44100 ?acc = Inr ab"
    for v ab
    using that iv mix by (simp add: build_result_def py_truediv_def)
  from returned returns tensor_add3_nth [of "sources ! 0" "sources ! 1" "sources ! 2"]
  show ?thesis by blast
qed

theorem isolate_voice_mix_down_witness:
  "run_inference stub_lib (PStr ''ab'')
   = Inr ([Tensor2 4 [[1, 1, 1, 1], [1, 1, 1, 1]], Tensor2 4 [[2, 2, 2, 2], [2, 2, 2, 2]],
           Tensor2 4 [[3, 3, 3, 3], [3, 3, 3, 3]], Tensor2 4 [[4, 4, 4, 4], [4, 4, 4, 4]]], 44100)
   \<and> isolate_voice stub_lib (PStr ''ab'')
   = Inr \<lparr>vocals_base64 = ''4 4 /4 4 /4 4 /4 4 /'', accompaniment_base64 = ''6 6 /6 6 /6 6 /6 6 /'',
          sample_rate = 44100, duration_seconds = 4 / 44100\<rparr>
   \<and> encode_audio stub_lib 44100 (Tensor2 4 [[4, 4, 4, 4], [4, 4, 4, 4]]) = Inr ''4 4 /4 4 /4 4 /4 4 /''
   \<and> encode_audio stub_lib 44100
        (tensor_add (tensor_add (Tensor2 4 [[1, 1, 1, 1], [1, 1, 1, 1]]) (Tensor2 4 [[2, 2, 2, 2], [2, 2, 2, 2]]))
           (Tensor2 4 [[3, 3, 3, 3], [3, 3, 3, 3]]))
       = Inr ''6 6 /6 6 /6 6 /6 6 /''"
proof -
  let ?S = "[Tensor2 4 [[1, 1, 1, 1], [1, 1, 1, 1]], Tensor2 4 [[2, 2, 2, 2], [2, 2, 2, 2]],
             Tensor2 4 [[3, 3, 3, 3], [3, 3, 3, 3]], Tensor2 4 [[4, 4, 4, 4], [4, 4, 4, 4 :: int]]]"
  let ?R = "\<lparr>vocals_base64 = ''4 4 /4 4 /4 4 /4 4 /'', accompaniment_base64 = ''6 6 /6 6 /6 6 /6 6 /'',
             sample_rate = 44100, duration_seconds = 4 / 44100\<rparr>"
  have l: "4 \<le> length ?S" by simp
  from isolate_voice_mix_down [OF stub_run l]
  have "\<forall>result. isolate_voice stub_lib (PStr ''ab'') = Inr result \<longrightarrow>
          encode_audio stub_lib 44100 (?S ! 3) = Inr (vocals_base64 result)
        \<and> encode_audio stub_lib 44100 (tensor_add (tensor_add (?S ! 0) (?S ! 1)) (?S ! 2))
            = Inr (accompaniment_base64 result)"
    by blast
  with stub_isolate_voice
  have "encode_audio stub_lib 44100 (?S ! 3) = Inr (vocals_base64 ?R)
        \<and> encode_audio stub_lib 44100 (tensor_add (tensor_add (?S ! 0) (?S ! 1)) (?S ! 2))
            = Inr (accompaniment_base64 ?R)"
    by blast
  then have "encode_audio stub_lib 44100 (Tensor2 4 [[4, 4, 4, 4], [4, 4, 4, 4]]) = Inr ''4 4 /4 4 /4 4 /4 4 /''
   \<and> encode_audio stub_lib 44100
        (tensor_add (tensor_add (Tensor2 4 [[1, 1, 1, 1], [1, 1, 1, 1]]) (Tensor2 4 [[2, 2, 2, 2], [2, 2, 2, 2]]))
           (Tensor2 4 [[3, 3, 3, 3], [3, 3, 3, 3]]))
       = Inr ''6 6 /6 6 /6 6 /6 6 /''"
    by simp
  with stub_run stub_isolate_voice show ?thesis by blast
qed

section \<open>The endpoint\<close>

lemma endpoint_truthy:
  "request ''audio_base64'' = Some a \<Longrightarrow> truthy a \<Longrightarrow>
   endpoint_body lib request =
     (case isolate_voice lib a of
        Inl e \<Rightarrow> Inl e
      | Inr result \<Rightarrow>
          (if truthy (dict_get request ''return_accompaniment'' (PBool False))
           then Inr ((success_response result)(''accompaniment_base64'' \<mapsto> PStr (accompaniment_base64 result)))
           else Inr (success_response result)))"
  by (simp add: endpoint_body_def dict_get_def Let_def split: sum.splits)

lemma endpoint_falsy:
  "\<not> truthy (dict_get request ''audio_base64'' PNone) \<Longrightarrow>
   endpoint_body lib request = Inr missing_audio_response"
  by (simp add: endpoint_body_def Let_def)

lemma stub_string_flag:
  "isolate_voice_endpoint stub_lib string_flag_request
   = Inr [''success'' \<mapsto> PBool True, ''vocals_base64'' \<mapsto> PStr ''4 4 /4 4 /4 4 /4 4 /'',
          ''duration_seconds'' \<mapsto> PFloat (4 / 44100),
          ''accompaniment_base64'' \<mapsto> PStr ''6 6 /6 6 /6 6 /6 6 /'']"
  by (simp add: isolate_voice_endpoint_def endpoint_body_def string_flag_request_def dict_get_def
      stub_isolate_voice success_response_def)

text \<open>
  C3. Whenever \<^verbatim>\<open>isolate_voice\<close> returns, the sample rate it returns is 44100 and
  \<^verbatim>\<open>duration_seconds\<close> is the sample count of the vocals stem (the stem at index 3)
  divided by 44100; the endpoint passes this value on unchanged for every request that
  carries this audio. (The quotient is the real one: the rounding of Python's float
  division is outside the model.)
\<close>

theorem isolate_voice_duration:
  assumes "isolate_voice lib a = Inr result"
  shows "\<exists>sources.
           run_inference lib a = Inr (sources, 44100) \<and> 4 \<le> length sources
         \<and> sample_rate result = 44100
         \<and> duration_seconds result = real (shape1 (sources ! 3)) / 44100
         \<and> (\<forall>request. request ''audio_base64'' = Some a \<and> truthy a \<longrightarrow>
               (\<exists>response. isolate_voice_endpoint lib request = Inr response
                  \<and> response ''duration_seconds''
                      = Some (PFloat (real (shape1 (sources ! 3)) / 44100))))"
proof -
  from assms obtain sources where run: "run_inference lib a = Inr (sources, 44100)"
    and res: "build_result lib sources 44100 = Inr result"
    using isolate_voice_Inr by blast
  from res obtain vocals acc where mix: "mix_down sources = Inr (vocals, acc)"
    and d: "py_truediv (int (shape1 vocals)) 44100 = Inr (duration_seconds result)"
    and sr: "sample_rate result = 44100"
    using build_result_Inr by blast
  from mix_down_Inr [OF mix] have len: "4 \<le> length sources" and v: "vocals = sources ! 3"
    by simp_all
  from d v have dur: "duration_seconds result = real (shape1 (sources ! 3)) / 44100"
    by (simp add: py_truediv_def)
  have "\<exists>response. isolate_voice_endpoint lib request = Inr response
          \<and> response ''duration_seconds'' = Some (PFloat (real (shape1 (sources ! 3)) / 44100))"
    if "request ''audio_base64'' = Some a" "truthy a" for request
    using endpoint_truthy [of request a lib] that assms dur
    by (simp add: isolate_voice_endpoint_def success_response_def)
  with run len sr dur show ?thesis by blast
qed

theorem isolate_voice_duration_witness:
  "isolate_voice stub_lib (PStr ''ab'')
   = Inr \<lparr>vocals_base64 = ''4 4 /4 4 /4 4 /4 4 /'', accompaniment_base64 = ''6 6 /6 6 /6 6 /6 6 /'',
          sample_rate = 44100, duration_seconds = 4 / 44100\<rparr>
   \<and> shape1 (Tensor2 4 [[4, 4, 4, 4], [4, 4, 4, 4 :: int]]) = 4
   \<and> duration_seconds \<lparr>vocals_base64 = ''4 4 /4 4 /4 4 /4 4 /'',
          accompaniment_base64 = ''6 6 /6 6 /6 6 /6 6 /'',
          sample_rate = 44100, duration_seconds = 4 / 44100\<rparr>
       = real (shape1 (Tensor2 4 [[4, 4, 4, 4], [4, 4, 4, 4 :: int]])) / 44100"
proof -
  from isolate_voice_duration [OF stub_isolate_voice] stub_run
  have "duration_seconds \<lparr>vocals_base64 = ''4 4 /4 4 /4 4 /4 4 /'',
          accompaniment_base64 = ''6 6 /6 6 /6 6 /6 6 /'',
          sample_rate = 44100, duration_seconds = 4 / 44100\<rparr>
       = real (shape1 (Tensor2 4 [[4, 4, 4, 4], [4, 4, 4, 4 :: int]])) / 44100"
    by auto
  with stub_isolate_voice show ?thesis by simp
qed

text \<open>
  C4. A request without the key \<^verbatim>\<open>audio_base64\<close> gets exactly the response
  \<^verbatim>\<open>{"success": False, "error": "audio_base64 is required"}\<close>, returned and not
  raised, whatever the libraries do.
\<close>

theorem missing_audio_base64:
  assumes "request ''audio_base64'' = None"
  shows "isolate_voice_endpoint lib request
         = Inr [''success'' \<mapsto> PBool False, ''error'' \<mapsto> PStr ''audio_base64 is required'']"
  using assms
  by (simp add: isolate_voice_endpoint_def endpoint_falsy dict_get_def missing_audio_response_def)

theorem missing_audio_base64_witness:
  "[''return_accompaniment'' \<mapsto> PBool True] ''audio_base64'' = None
   \<and> isolate_voice_endpoint stub_lib [''return_accompaniment'' \<mapsto> PBool True]
       = Inr [''success'' \<mapsto> PBool False, ''error'' \<mapsto> PStr ''audio_base64 is required'']"
proof -
  have h: "[''return_accompaniment'' \<mapsto> PBool True] ''audio_base64'' = None" by simp
  from missing_audio_base64 [of "[''return_accompaniment'' \<mapsto> PBool True]" stub_lib] h
  show ?thesis by blast
qed

text \<open>
  C5. The endpoint always returns a response and never raises; when the pipeline
  (\<^verbatim>\<open>isolate_voice\<close>) raises \<open>e\<close> on the request's audio, the response is exactly
  \<^verbatim>\<open>{"success": False, "error": str(e)}\<close>.
\<close>

theorem endpoint_never_raises:
  "(\<exists>response. isolate_voice_endpoint lib request = Inr response)
   \<and> (\<forall>a e. request ''audio_base64'' = Some a \<and> truthy a \<and> isolate_voice lib a = Inl e \<longrightarrow>
         isolate_voice_endpoint lib request
         = Inr [''success'' \<mapsto> PBool False, ''error'' \<mapsto> PStr (exn_str e)])"
proof -
  have "\<exists>response. isolate_voice_endpoint lib request = Inr response"
    by (cases "endpoint_body lib request") (simp_all add: isolate_voice_endpoint_def)
  moreover have "isolate_voice_endpoint lib request
         = Inr [''success'' \<mapsto> PBool False, ''error'' \<mapsto> PStr (exn_str e)]"
    if "request ''audio_base64'' = Some a" "truthy a" "isolate_voice lib a = Inl e" for a e
    using endpoint_truthy [of request a lib] that
    by (simp add: isolate_voice_endpoint_def error_response_def)
  ultimately show ?thesis by blast
qed

theorem endpoint_never_raises_witness:
  "[''audio_base64'' \<mapsto> PInt 5] ''audio_base64'' = Some (PInt 5)
   \<and> truthy (PInt 5)
   \<and> isolate_voice stub_lib (PInt 5)
       = Inl (LibError ''argument should be a bytes-like object or ASCII string'')
   \<and> isolate_voice_endpoint stub_lib [''audio_base64'' \<mapsto> PInt 5]
       = Inr [''success'' \<mapsto> PBool False,
              ''error'' \<mapsto> PStr ''argument should be a bytes-like object or ASCII string'']"
proof -
  have h: "[''audio_base64'' \<mapsto> PInt 5] ''audio_base64'' = Some (PInt 5)" by simp
  have t: "truthy (PInt 5)" by simp
  have e: "isolate_voice stub_lib (PInt 5)
           = Inl (LibError ''argument should be a bytes-like object or ASCII string'')"
    by (simp add: isolate_voice_def stub_simps)
  from endpoint_never_raises [of stub_lib "[''audio_base64'' \<mapsto> PInt 5]"] h t e
  have "isolate_voice_endpoint stub_lib [''audio_base64'' \<mapsto> PInt 5]
       = Inr [''success'' \<mapsto> PBool False,
              ''error'' \<mapsto> PStr (exn_str (LibError ''argument should be a bytes-like object or ASCII string''))]"
    by blast
  with h t e show ?thesis by simp
qed

text \<open>
  C6, as stated, fails: a request whose \<^verbatim>\<open>return_accompaniment\<close> is the string
  \<^verbatim>\<open>"no"\<close>, which is not \<^verbatim>\<open>true\<close>, gets a response with the key
  \<^verbatim>\<open>accompaniment_base64\<close>, since the flag is tested by its truth value.
\<close>

theorem accompaniment_for_string_flag:
  "returns_field (isolate_voice_endpoint stub_lib string_flag_request) ''accompaniment_base64''
   \<and> string_flag_request ''return_accompaniment'' = Some (PStr ''no'')
   \<and> string_flag_request ''return_accompaniment'' \<noteq> Some (PBool True)"
  by (simp add: stub_string_flag returns_field_def) (simp add: string_flag_request_def)

text \<open>
  C6, amended. The response has the key \<^verbatim>\<open>accompaniment_base64\<close> if and only if the
  request's \<^verbatim>\<open>return_accompaniment\<close> (\<^verbatim>\<open>False\<close> when omitted) is truthy and the
  run succeeds. So the key is absent when the flag is \<^verbatim>\<open>false\<close> or omitted, and
  present when the flag is \<^verbatim>\<open>true\<close> and the run succeeds.
\<close>

theorem accompaniment_iff_truthy:
  assumes "isolate_voice_endpoint lib request = Inr response"
  shows "((response ''accompaniment_base64'' \<noteq> None)
          = (truthy (dict_get request ''return_accompaniment'' (PBool False))
             \<and> response ''success'' = Some (PBool True)))
       \<and> (request ''return_accompaniment'' = None
            \<or> request ''return_accompaniment'' = Some (PBool False)
          \<longrightarrow> response ''accompaniment_base64'' = None)
       \<and> (request ''return_accompaniment'' = Some (PBool True)
            \<and> response ''success'' = Some (PBool True)
          \<longrightarrow> response ''accompaniment_base64'' \<noteq> None)"
proof -
  have main: "(response ''accompaniment_base64'' \<noteq> None)
          = (truthy (dict_get request ''return_accompaniment'' (PBool False))
             \<and> response ''success'' = Some (PBool True))"
  proof (cases "truthy (dict_get request ''audio_base64'' PNone)")
    case False
    with assms show ?thesis
      by (auto simp: isolate_voice_endpoint_def endpoint_falsy missing_audio_response_def)
  next
    case True
    then obtain a where a: "request ''audio_base64'' = Some a" "truthy a"
      by (auto simp: dict_get_def split: option.splits)
    show ?thesis
      using endpoint_truthy [of request a lib] a assms
      by (auto simp: isolate_voice_endpoint_def error_response_def success_response_def
          split: sum.splits if_splits)
  qed
  then show ?thesis by (auto simp: dict_get_def)
qed

theorem accompaniment_iff_truthy_witness:
  "isolate_voice_endpoint stub_lib string_flag_request
   = Inr [''success'' \<mapsto> PBool True, ''vocals_base64'' \<mapsto> PStr ''4 4 /4 4 /4 4 /4 4 /'',
          ''duration_seconds'' \<mapsto> PFloat (4 / 44100),
          ''accompaniment_base64'' \<mapsto> PStr ''6 6 /6 6 /6 6 /6 6 /'']
   \<and> truthy (dict_get string_flag_request ''return_accompaniment'' (PBool False))
   \<and> [''success'' \<mapsto> PBool True, ''vocals_base64'' \<mapsto> PStr ''4 4 /4 4 /4 4 /4 4 /'',
          ''duration_seconds'' \<mapsto> PFloat (4 / 44100),
          ''accompaniment_base64'' \<mapsto> PStr ''6 6 /6 6 /6 6 /6 6 /''] ''accompaniment_base64'' \<noteq> None"
proof -
  have t: "truthy (dict_get string_flag_request ''return_accompaniment'' (PBool False))"
    by (simp add: dict_get_def string_flag_request_def)
  from accompaniment_iff_truthy [OF stub_string_flag] t
  have "[''success'' \<mapsto> PBool True, ''vocals_base64'' \<mapsto> PStr ''4 4 /4 4 /4 4 /4 4 /'',
          ''duration_seconds'' \<mapsto> PFloat (4 / 44100),
          ''accompaniment_base64'' \<mapsto> PStr ''6 6 /6 6 /6 6 /6 6 /''] ''accompaniment_base64'' \<noteq> None"
    by simp
  with stub_string_flag t show ?thesis by blast
qed

text \<open>
  C10. A request whose \<^verbatim>\<open>audio_base64\<close> is present but falsy (the empty string,
  \<^verbatim>\<open>null\<close>, \<^verbatim>\<open>false\<close>, zero, an empty list or object) gets the response of a
  request without the key, \<^verbatim>\<open>{"success": False, "error": "audio_base64 is required"}\<close>,
  whatever the libraries do: nothing is decoded.
\<close>

theorem falsy_audio_base64:
  assumes "request ''audio_base64'' = Some v" and "\<not> truthy v"
  shows "isolate_voice_endpoint lib request
         = Inr [''success'' \<mapsto> PBool False, ''error'' \<mapsto> PStr ''audio_base64 is required'']
       \<and> isolate_voice_endpoint lib request
         = isolate_voice_endpoint lib (request(''audio_base64'' := None))"
  using assms
  by (simp add: isolate_voice_endpoint_def endpoint_falsy dict_get_def missing_audio_response_def)

theorem falsy_audio_base64_witness:
  "[''audio_base64'' \<mapsto> PStr []] ''audio_base64'' = Some (PStr [])
   \<and> \<not> truthy (PStr [])
   \<and> isolate_voice_endpoint stub_lib [''audio_base64'' \<mapsto> PStr []]
       = Inr [''success'' \<mapsto> PBool False, ''error'' \<mapsto> PStr ''audio_base64 is required'']"
proof -
  have h: "[''audio_base64'' \<mapsto> PStr []] ''audio_base64'' = Some (PStr [])" by simp
  have f: "\<not> truthy (PStr [])" by simp
  from falsy_audio_base64 [of "[''audio_base64'' \<mapsto> PStr []]" "PStr []" stub_lib] h f
  show ?thesis by blast
qed

end
